theory Spec2Isabelle
  imports Main "HOL-Library.Word"
begin

unbundle bit_operations_syntax

section \<open>Platform types and status codes\<close>

text \<open>
  The component is written against the Windows SDK. Its integer types are 32 bits wide
  (\<open>HRESULT\<close> and \<open>LONG\<close> are read as two's complement with \<open>sint\<close>, \<open>DWORD\<close> and
  \<open>ULONG\<close> as unsigned), a \<open>GUID\<close> is 128 bits, and a wide string is modelled as a
  list of characters: the code only tests strings for emptiness, copies and concatenates them.
\<close>

type_synonym HRESULT = "32 word"
type_synonym LSTATUS = "32 word"
type_synonym DWORD = "32 word"
type_synonym LONG = "32 word"
type_synonym ULONG = "32 word"
type_synonym GUID = "128 word"
type_synonym wstring = string

text \<open>
  The status codes, macros and enumeration values below belong to the Windows SDK headers the
  sources include (\<open>winerror.h\<close>, \<open>winnt.h\<close>, \<open>shobjidl_core.h\<close>, \<open>shellapi.h\<close>,
  \<open>unknwn.h\<close>); the repository uses them by name, and they are given here with their SDK
  values.
\<close>

definition S_OK :: HRESULT where "S_OK = 0"
definition S_FALSE :: HRESULT where "S_FALSE = 1"
definition E_NOTIMPL :: HRESULT where "E_NOTIMPL = 0x80004001"
definition E_NOINTERFACE :: HRESULT where "E_NOINTERFACE = 0x80004002"
definition E_POINTER :: HRESULT where "E_POINTER = 0x80004003"
definition E_FAIL :: HRESULT where "E_FAIL = 0x80004005"
definition E_OUTOFMEMORY :: HRESULT where "E_OUTOFMEMORY = 0x8007000E"
definition E_INVALIDARG :: HRESULT where "E_INVALIDARG = 0x80070057"
definition CLASS_E_NOAGGREGATION :: HRESULT where "CLASS_E_NOAGGREGATION = 0x80040110"
definition CLASS_E_CLASSNOTAVAILABLE :: HRESULT where "CLASS_E_CLASSNOTAVAILABLE = 0x80040111"
definition ERROR_SUCCESS :: LSTATUS where "ERROR_SUCCESS = 0"
definition REG_SZ :: DWORD where "REG_SZ = 1"

text \<open>The macros \<open>SUCCEEDED\<close>, \<open>FAILED\<close> and \<open>HRESULT_FROM_WIN32\<close> of \<open>winerror.h\<close>:
  a status is a failure when it is negative as a signed 32-bit value.\<close>

definition SUCCEEDED :: "HRESULT \<Rightarrow> bool" where
  "SUCCEEDED hr = (0 \<le> sint hr)"

definition FAILED :: "HRESULT \<Rightarrow> bool" where
  "FAILED hr = (sint hr < 0)"

definition HRESULT_FROM_WIN32 :: "DWORD \<Rightarrow> HRESULT" where
  "HRESULT_FROM_WIN32 x =
     (if sint x \<le> 0 then x else (x AND 0x0000FFFF) OR push_bit 16 7 OR 0x80000000)"

text \<open>Values of \<open>shobjidl_core.h\<close> and \<open>shellapi.h\<close>.\<close>

definition ECS_ENABLED :: DWORD where "ECS_ENABLED = 0"
definition ECF_DEFAULT :: DWORD where "ECF_DEFAULT = 0"
definition SEE_MASK_DEFAULT :: DWORD where "SEE_MASK_DEFAULT = 0"
definition SW_SHOWNORMAL :: DWORD where "SW_SHOWNORMAL = 1"

section \<open>The environment of the component\<close>

text \<open>
  The persisted configuration is reached through two registry calls on the per-user key
  \<open>CONFIG_REG_KEY\<close> (Software, Bascanka, ContextMenu under \<open>HKEY_CURRENT_USER\<close>). The registry is modelled by
  what these calls answer: the status of \<open>RegOpenKeyExW\<close>, and for a value name and a
  buffer size in bytes the status, the value type and the string \<open>RegQueryValueExW\<close>
  leaves in the buffer (read up to its terminator).
\<close>

record reg_query =
  q_status :: LSTATUS
  q_type :: DWORD
  q_buffer :: wstring

record registry =
  RegOpenKeyExW :: LSTATUS
  RegQueryValueExW :: "wstring \<Rightarrow> nat \<Rightarrow> reg_query"

text \<open>
  A launch request is the \<open>SHELLEXECUTEINFOW\<close> structure handed to \<open>ShellExecuteExW\<close>
  (the fields the code sets; all others are zero). The call either starts the process or
  fails, and then \<open>GetLastError\<close> gives an error code.
\<close>

record SHELLEXECUTEINFOW =
  fMask :: DWORD
  lpVerb :: wstring
  lpFile :: wstring
  lpParameters :: wstring
  nShow :: DWORD

datatype launch_result = Launched | LaunchFailed DWORD

text \<open>
  The rest of the operating system, again by its answers: whether \<open>CoTaskMemAlloc\<close>
  (inside \<open>SHStrDupW\<close>) and \<open>new (std::nothrow)\<close> obtain memory, what
  \<open>CLSIDFromString\<close> returns and writes (\<open>None\<close>: the output is left as it was), and how
  \<open>ShellExecuteExW\<close> answers a launch request.
\<close>

record os =
  CoTaskMemAlloc_ok :: bool
  new_ok :: bool
  CLSIDFromString :: "wstring \<Rightarrow> HRESULT \<times> GUID option"
  ShellExecuteExW :: "SHELLEXECUTEINFOW \<Rightarrow> launch_result"

definition SHStrDupW :: "os \<Rightarrow> wstring \<Rightarrow> HRESULT \<times> wstring option" where
  "SHStrDupW env s = (if CoTaskMemAlloc_ok env then (S_OK, Some s) else (E_OUTOFMEMORY, None))"

section \<open>BascankaCommand: configuration queries\<close>

text \<open>
  \<open>ReadRegString\<close> reads into a zero-initialised buffer of 1024 wide characters (2048
  bytes) and returns the string in it, or the empty string when the key does not open, the
  query does not succeed or the value is not of type \<open>REG_SZ\<close>.
\<close>

definition ReadRegString :: "registry \<Rightarrow> wstring \<Rightarrow> wstring" where
  "ReadRegString reg valueName =
     (if RegOpenKeyExW reg \<noteq> ERROR_SUCCESS then []
      else let q = RegQueryValueExW reg valueName 2048
           in if q_status q \<noteq> ERROR_SUCCESS \<or> q_type q \<noteq> REG_SZ then [] else q_buffer q)"

text \<open>The string output of a query is \<open>None\<close> when the output pointer is set to null.\<close>

definition GetTitle :: "registry \<Rightarrow> os \<Rightarrow> HRESULT \<times> wstring option" where
  "GetTitle reg env =
     (let displayName = ReadRegString reg ''DisplayName'';
          displayName = (if displayName = [] then ''Edit with Bascanka'' else displayName)
      in SHStrDupW env displayName)"

definition GetIcon :: "registry \<Rightarrow> os \<Rightarrow> HRESULT \<times> wstring option" where
  "GetIcon reg env =
     (let iconPath = ReadRegString reg ''IconPath'';
          iconPath = (if iconPath = []
                      then (let iconPath = ReadRegString reg ''ExePath''
                            in if iconPath \<noteq> [] then iconPath @ '',0'' else iconPath)
                      else iconPath)
      in if iconPath = [] then (E_NOTIMPL, None) else SHStrDupW env iconPath)"

definition GetToolTip :: "HRESULT \<times> wstring option" where
  "GetToolTip = (E_NOTIMPL, None)"

text \<open>\<open>GetState\<close> and \<open>GetFlags\<close> ignore their inputs; a null selection is \<open>None\<close>.\<close>

definition GetState :: "'sel option \<Rightarrow> bool \<Rightarrow> HRESULT \<times> DWORD" where
  "GetState psiItemArray fOkToBeSlow = (S_OK, ECS_ENABLED)"

definition GetFlags :: "HRESULT \<times> DWORD" where
  "GetFlags = (S_OK, ECF_DEFAULT)"

section \<open>BascankaCommand: Invoke\<close>

text \<open>
  The selection is a shell item array owned by the host. It is modelled by what its methods
  answer: \<open>GetCount\<close> gives a status and the value left in \<open>count\<close> (initialised to 0),
  \<open>GetItemAt\<close> a status and the item pointer (\<open>None\<close> for null), and an item answers
  \<open>GetDisplayName (SIGDN_FILESYSPATH)\<close> with a status and the path pointer.
\<close>

record IShellItem =
  GetDisplayName :: "HRESULT \<times> wstring option"

record IShellItemArray =
  GetCount :: "HRESULT \<times> DWORD"
  GetItemAt :: "DWORD \<Rightarrow> HRESULT \<times> IShellItem option"

definition dquote :: char where
  "dquote = CHR 0x22"

text \<open>One iteration of the loop over the selection, at index \<open>i\<close>.\<close>

definition Invoke_item :: "IShellItemArray \<Rightarrow> DWORD \<Rightarrow> wstring \<Rightarrow> wstring" where
  "Invoke_item sel i args =
     (case GetItemAt sel i of (hr, psi) \<Rightarrow>
        (case psi of
           None \<Rightarrow> args
         | Some item \<Rightarrow>
             if SUCCEEDED hr then
               (case GetDisplayName item of (hr', filePath) \<Rightarrow>
                  (case filePath of
                     None \<Rightarrow> args
                   | Some path \<Rightarrow>
                       if SUCCEEDED hr' then
                         (if args \<noteq> [] then args @ [CHR '' ''] else args) @ [dquote] @ path @ [dquote]
                       else args))
             else args))"

text \<open>The loop \<open>for (DWORD i = 0; i < count; i++)\<close>, starting from the empty string.\<close>

definition Invoke_args :: "IShellItemArray \<Rightarrow> DWORD \<Rightarrow> wstring" where
  "Invoke_args sel count = fold (\<lambda>i args. Invoke_item sel (of_nat i) args) [0..<unat count] []"

text \<open>\<open>Invoke\<close> returns its status and the launch requests it has made, in order.\<close>

definition Invoke :: "registry \<Rightarrow> os \<Rightarrow> IShellItemArray option \<Rightarrow> HRESULT \<times> SHELLEXECUTEINFOW list" where
  "Invoke reg env psiItemArray =
     (case psiItemArray of
        None \<Rightarrow> (E_INVALIDARG, [])
      | Some sel \<Rightarrow>
          let exePath = ReadRegString reg ''ExePath'' in
          if exePath = [] then (E_FAIL, [])
          else (case GetCount sel of (hr, count) \<Rightarrow>
            if FAILED hr \<or> count = 0 then (hr, [])
            else let args = Invoke_args sel count in
              if args = [] then (E_FAIL, [])
              else let sei = \<lparr>fMask = SEE_MASK_DEFAULT, lpVerb = ''open'', lpFile = exePath,
                                lpParameters = args, nShow = SW_SHOWNORMAL\<rparr> in
                (case ShellExecuteExW env sei of
                   LaunchFailed err \<Rightarrow> (HRESULT_FROM_WIN32 err, [sei])
                 | Launched \<Rightarrow> (S_OK, [sei]))))"

section \<open>Reference counting and object creation\<close>

text \<open>
  An object on the heap is \<open>Some\<close> of its fields; \<open>delete this\<close> leaves \<open>None\<close>.
  \<open>InterlockedIncrement\<close> and \<open>InterlockedDecrement\<close> work on a 32-bit \<open>LONG\<close> and
  return the new value. An output pointer \<open>ppv\<close> is either not written, set to null, or set
  to the object.
\<close>

datatype outptr = NotWritten | Null | Object

definition IID_IUnknown :: GUID where
  "IID_IUnknown = 0x0000000000000000C000000000000046"
definition IID_IClassFactory :: GUID where
  "IID_IClassFactory = 0x0000000100000000C000000000000046"
definition IID_IExplorerCommand :: GUID where
  "IID_IExplorerCommand = 0xA08CE4D0FA2544ABB57CC7B1C323E0B9"

record BascankaCommand =
  m_refCount :: LONG

definition BascankaCommand_new :: BascankaCommand where
  "BascankaCommand_new = \<lparr>m_refCount = 1\<rparr>"

definition AddRef :: "BascankaCommand \<Rightarrow> ULONG \<times> BascankaCommand" where
  "AddRef this = (let r = m_refCount this + 1 in (r, this\<lparr>m_refCount := r\<rparr>))"

definition Release :: "BascankaCommand \<Rightarrow> ULONG \<times> BascankaCommand option" where
  "Release this =
     (let ref = m_refCount this - 1
      in if ref = 0 then (ref, None) else (ref, Some (this\<lparr>m_refCount := ref\<rparr>)))"

definition QueryInterface :: "BascankaCommand \<Rightarrow> GUID \<Rightarrow> bool \<Rightarrow> HRESULT \<times> outptr \<times> BascankaCommand" where
  "QueryInterface this riid ppv =
     (if \<not> ppv then (E_POINTER, NotWritten, this)
      else if riid = IID_IUnknown \<or> riid = IID_IExplorerCommand
           then (S_OK, Object, snd (AddRef this))
           else (E_NOINTERFACE, Null, this))"

text \<open>The globals of \<open>dllmain.cpp\<close>.\<close>

record dll_state =
  g_dllRefCount :: LONG
  g_CLSID_BascankaCommand :: GUID
  g_hModule :: nat

definition initial_state :: dll_state where
  "initial_state = \<lparr>g_dllRefCount = 0, g_CLSID_BascankaCommand = 0, g_hModule = 0\<rparr>"

text \<open>The class factory has the same counter (field \<open>m_refCount\<close> of \<open>ClassFactory\<close>);
  its constructor and destructor path also count in \<open>g_dllRefCount\<close>.\<close>

record ClassFactory =
  cf_m_refCount :: LONG

definition ClassFactory_new :: "dll_state \<Rightarrow> ClassFactory \<times> dll_state" where
  "ClassFactory_new st = (\<lparr>cf_m_refCount = 1\<rparr>, st\<lparr>g_dllRefCount := g_dllRefCount st + 1\<rparr>)"

definition ClassFactory_AddRef :: "ClassFactory \<Rightarrow> ULONG \<times> ClassFactory" where
  "ClassFactory_AddRef this = (let r = cf_m_refCount this + 1 in (r, this\<lparr>cf_m_refCount := r\<rparr>))"

definition ClassFactory_Release :: "ClassFactory \<Rightarrow> dll_state \<Rightarrow> ULONG \<times> ClassFactory option \<times> dll_state" where
  "ClassFactory_Release this st =
     (let ref = cf_m_refCount this - 1
      in if ref = 0 then (ref, None, st\<lparr>g_dllRefCount := g_dllRefCount st - 1\<rparr>)
         else (ref, Some (this\<lparr>cf_m_refCount := ref\<rparr>), st))"

definition ClassFactory_QueryInterface :: "ClassFactory \<Rightarrow> GUID \<Rightarrow> bool \<Rightarrow> HRESULT \<times> outptr \<times> ClassFactory" where
  "ClassFactory_QueryInterface this riid ppv =
     (if \<not> ppv then (E_POINTER, NotWritten, this)
      else if riid = IID_IUnknown \<or> riid = IID_IClassFactory
           then (S_OK, Object, snd (ClassFactory_AddRef this))
           else (E_NOINTERFACE, Null, this))"

text \<open>
  \<open>CreateInstance\<close> returns its status, what it did to \<open>ppv\<close>, and the command objects it
  constructed, each as the call leaves it (\<open>None\<close>: deleted again). \<open>pUnkOuter\<close> is \<open>None\<close>
  when null; \<open>ppv\<close> tells whether the output pointer is non-null.
\<close>

definition CreateInstance :: "os \<Rightarrow> 'u option \<Rightarrow> GUID \<Rightarrow> bool \<Rightarrow> HRESULT \<times> outptr \<times> BascankaCommand option list" where
  "CreateInstance env pUnkOuter riid ppv =
     (if pUnkOuter \<noteq> None then (CLASS_E_NOAGGREGATION, NotWritten, [])
      else if \<not> new_ok env then (E_OUTOFMEMORY, NotWritten, [])
      else case QueryInterface BascankaCommand_new riid ppv of (hr, out, pCmd) \<Rightarrow>
             (hr, out, [snd (Release pCmd)]))"

definition LockServer :: "bool \<Rightarrow> dll_state \<Rightarrow> HRESULT \<times> dll_state" where
  "LockServer fLock st =
     (if fLock then (S_OK, st\<lparr>g_dllRefCount := g_dllRefCount st + 1\<rparr>)
      else (S_OK, st\<lparr>g_dllRefCount := g_dllRefCount st - 1\<rparr>))"

section \<open>Load-time initialisation and the exported functions\<close>

text \<open>\<open>ReadCLSIDFromRegistry\<close> reads into a buffer of 128 wide characters (256 bytes).\<close>

definition ReadCLSIDFromRegistry :: "registry \<Rightarrow> os \<Rightarrow> dll_state \<Rightarrow> bool \<times> dll_state" where
  "ReadCLSIDFromRegistry reg env st =
     (if RegOpenKeyExW reg \<noteq> ERROR_SUCCESS then (False, st)
      else let q = RegQueryValueExW reg ''CLSID'' 256
           in if q_status q \<noteq> ERROR_SUCCESS \<or> q_type q \<noteq> REG_SZ then (False, st)
              else case CLSIDFromString env (q_buffer q) of (hr, written) \<Rightarrow>
                     (SUCCEEDED hr,
                      case written of None \<Rightarrow> st | Some clsid \<Rightarrow> st\<lparr>g_CLSID_BascankaCommand := clsid\<rparr>))"

definition DLL_PROCESS_ATTACH :: DWORD where "DLL_PROCESS_ATTACH = 1"
definition DLL_PROCESS_DETACH :: DWORD where "DLL_PROCESS_DETACH = 0"

definition DllMain :: "registry \<Rightarrow> os \<Rightarrow> nat \<Rightarrow> DWORD \<Rightarrow> dll_state \<Rightarrow> bool \<times> dll_state" where
  "DllMain reg env hModule ul_reason_for_call st =
     (if ul_reason_for_call = DLL_PROCESS_ATTACH
      then (True, snd (ReadCLSIDFromRegistry reg env (st\<lparr>g_hModule := hModule\<rparr>)))
      else (True, st))"

text \<open>
  \<open>DllGetClassObject\<close> returns its status, what it did to \<open>ppv\<close>, the factory objects it
  constructed as the call leaves them, and the globals.
\<close>

definition DllGetClassObject ::
    "registry \<Rightarrow> os \<Rightarrow> dll_state \<Rightarrow> GUID \<Rightarrow> GUID \<Rightarrow> bool \<Rightarrow> HRESULT \<times> outptr \<times> ClassFactory option list \<times> dll_state" where
  "DllGetClassObject reg env st rclsid riid ppv =
     (if \<not> ppv then (E_POINTER, NotWritten, [], st)
      else let st = (if g_CLSID_BascankaCommand st = 0 then snd (ReadCLSIDFromRegistry reg env st) else st)
           in if rclsid \<noteq> g_CLSID_BascankaCommand st then (CLASS_E_CLASSNOTAVAILABLE, Null, [], st)
              else if \<not> new_ok env then (E_OUTOFMEMORY, Null, [], st)
              else case ClassFactory_new st of (pFactory, st) \<Rightarrow>
                     (case ClassFactory_QueryInterface pFactory riid True of (hr, out, pFactory) \<Rightarrow>
                        (case ClassFactory_Release pFactory st of (ref, left, st) \<Rightarrow>
                           (hr, out, [left], st))))"

definition DllCanUnloadNow :: "dll_state \<Rightarrow> HRESULT" where
  "DllCanUnloadNow st = (if 0 < sint (g_dllRefCount st) then S_FALSE else S_OK)"

section \<open>Call sequences on a reference-counted object\<close>

text \<open>
  A host drives an object by a sequence of \<open>AddRef\<close> and \<open>Release\<close> calls. A call made
  through a pointer to an object that has been deleted has no defined behaviour; the run of
  a sequence reports it as \<open>UseAfterFree\<close>.
\<close>

datatype refop = OpAddRef | OpRelease

datatype error = UseAfterFree

fun command_call :: "refop \<Rightarrow> BascankaCommand \<Rightarrow> BascankaCommand option" where
  "command_call OpAddRef this = Some (snd (AddRef this))"
| "command_call OpRelease this = snd (Release this)"

fun command_run :: "refop list \<Rightarrow> BascankaCommand option \<Rightarrow> error + BascankaCommand option" where
  "command_run [] obj = Inr obj"
| "command_run (c # cs) None = Inl UseAfterFree"
| "command_run (c # cs) (Some this) = command_run cs (command_call c this)"

fun factory_call :: "refop \<Rightarrow> ClassFactory \<times> dll_state \<Rightarrow> ClassFactory option \<times> dll_state" where
  "factory_call OpAddRef (this, st) = (Some (snd (ClassFactory_AddRef this)), st)"
| "factory_call OpRelease (this, st) = snd (ClassFactory_Release this st)"

fun factory_run :: "refop list \<Rightarrow> ClassFactory option \<times> dll_state \<Rightarrow> error + ClassFactory option \<times> dll_state" where
  "factory_run [] s = Inr s"
| "factory_run (c # cs) (None, st) = Inl UseAfterFree"
| "factory_run (c # cs) (Some this, st) = factory_run cs (factory_call c (this, st))"

text \<open>
  Bookkeeping on the call sequence alone, starting with \<open>n\<close> references held (1 after
  construction): the references held after the calls, whether each \<open>Release\<close> is matched
  by an earlier \<open>AddRef\<close> or by a reference held at the start, whether every call is made
  while a reference is held, and the largest number of references held at any moment.
\<close>

fun held_after :: "nat \<Rightarrow> refop list \<Rightarrow> nat" where
  "held_after n [] = n"
| "held_after n (OpAddRef # cs) = held_after (Suc n) cs"
| "held_after n (OpRelease # cs) = held_after (n - 1) cs"

fun symmetric_from :: "nat \<Rightarrow> refop list \<Rightarrow> bool" where
  "symmetric_from n [] = True"
| "symmetric_from n (OpAddRef # cs) = symmetric_from (Suc n) cs"
| "symmetric_from n (OpRelease # cs) = (0 < n \<and> symmetric_from (n - 1) cs)"

fun live_from :: "nat \<Rightarrow> refop list \<Rightarrow> bool" where
  "live_from n [] = True"
| "live_from n (c # cs) = (0 < n \<and> live_from (held_after n [c]) cs)"

fun peak_from :: "nat \<Rightarrow> refop list \<Rightarrow> nat" where
  "peak_from n [] = n"
| "peak_from n (c # cs) = max n (peak_from (held_after n [c]) cs)"

section \<open>Runs of the component: load, then a call\<close>

text \<open>
  A run loads the component while the registry is \<open>reg_load\<close> (\<open>DllMain\<close> with
  \<open>DLL_PROCESS_ATTACH\<close> on the initial globals) and later calls a command method while the
  registry is \<open>reg_call\<close>. The command methods are given the registry of the time of the
  call: each of them calls \<open>ReadRegString\<close> itself.
\<close>

definition title_after_load :: "registry \<Rightarrow> os \<Rightarrow> registry \<Rightarrow> HRESULT \<times> wstring option" where
  "title_after_load reg_load env reg_call =
     (case DllMain reg_load env 1 DLL_PROCESS_ATTACH initial_state of (ok, st) \<Rightarrow> GetTitle reg_call env)"

definition icon_after_load :: "registry \<Rightarrow> os \<Rightarrow> registry \<Rightarrow> HRESULT \<times> wstring option" where
  "icon_after_load reg_load env reg_call =
     (case DllMain reg_load env 1 DLL_PROCESS_ATTACH initial_state of (ok, st) \<Rightarrow> GetIcon reg_call env)"

definition invoke_after_load ::
    "registry \<Rightarrow> os \<Rightarrow> registry \<Rightarrow> IShellItemArray option \<Rightarrow> HRESULT \<times> SHELLEXECUTEINFOW list" where
  "invoke_after_load reg_load env reg_call psiItemArray =
     (case DllMain reg_load env 1 DLL_PROCESS_ATTACH initial_state of (ok, st) \<Rightarrow>
        Invoke reg_call env psiItemArray)"

section \<open>The argument string as the specification words it\<close>

text \<open>
  The path an item of the selection yields, if any: the item pointer and the path pointer
  are non-null and both calls succeed.
\<close>

definition item_path :: "IShellItemArray \<Rightarrow> DWORD \<Rightarrow> wstring option" where
  "item_path sel i =
     (case GetItemAt sel i of
        (hr, Some item) \<Rightarrow>
          (case GetDisplayName item of
             (hr', Some path) \<Rightarrow> if SUCCEEDED hr \<and> SUCCEEDED hr' then Some path else None
           | (hr', None) \<Rightarrow> None)
      | (hr, None) \<Rightarrow> None)"

definition selected_paths :: "IShellItemArray \<Rightarrow> DWORD \<Rightarrow> wstring list" where
  "selected_paths sel count = List.map_filter (\<lambda>i. item_path sel (of_nat i)) [0..<unat count]"

text \<open>Each path enclosed in double quotes, consecutive paths separated by a single space.\<close>

fun spec_argument_string :: "wstring list \<Rightarrow> wstring" where
  "spec_argument_string [] = []"
| "spec_argument_string [p] = [dquote] @ p @ [dquote]"
| "spec_argument_string (p # ps) = [dquote] @ p @ [dquote] @ [CHR '' ''] @ spec_argument_string ps"

section \<open>Sample inputs\<close>

text \<open>
  A registry holding the given string settings as \<open>REG_SZ\<close> values: a value that is absent
  gives \<open>ERROR_FILE_NOT_FOUND\<close> (2), one that does not fit the buffer with its terminator
  \<open>ERROR_MORE_DATA\<close> (234).
\<close>

definition registry_of :: "(wstring \<times> wstring) list \<Rightarrow> registry" where
  "registry_of settings =
     \<lparr>RegOpenKeyExW = ERROR_SUCCESS,
      RegQueryValueExW = (\<lambda>name size.
        case map_of settings name of
          None \<Rightarrow> \<lparr>q_status = 2, q_type = 0, q_buffer = []\<rparr>
        | Some v \<Rightarrow> if size < 2 * (length v + 1) then \<lparr>q_status = 234, q_type = REG_SZ, q_buffer = []\<rparr>
                    else \<lparr>q_status = ERROR_SUCCESS, q_type = REG_SZ, q_buffer = v\<rparr>)\<rparr>"

text \<open>An operating system with memory to spare, whose launches end as \<open>r\<close>.\<close>

definition os_launching :: "launch_result \<Rightarrow> os" where
  "os_launching r =
     \<lparr>CoTaskMemAlloc_ok = True, new_ok = True,
      CLSIDFromString = (\<lambda>s. if s = ''{1}'' then (S_OK, Some 1) else (0x800401F3, Some 0)),
      ShellExecuteExW = (\<lambda>sei. r)\<rparr>"

text \<open>A selection that answers every call with success, and items with and without a path.\<close>

definition selection_of :: "IShellItem list \<Rightarrow> IShellItemArray" where
  "selection_of items =
     \<lparr>GetCount = (S_OK, of_nat (length items)),
      GetItemAt = (\<lambda>i. if unat i < length items then (S_OK, Some (items ! unat i)) else (E_FAIL, None))\<rparr>"

definition path_item :: "wstring \<Rightarrow> IShellItem" where
  "path_item p = \<lparr>GetDisplayName = (S_OK, Some p)\<rparr>"

definition virtual_item :: IShellItem where
  "virtual_item = \<lparr>GetDisplayName = (E_INVALIDARG, None)\<rparr>"

text \<open>A selection whose count query fails with \<open>hr\<close> and leaves \<open>count\<close> at 0.\<close>

definition uncountable_selection :: "HRESULT \<Rightarrow> IShellItemArray" where
  "uncountable_selection hr = \<lparr>GetCount = (hr, 0), GetItemAt = (\<lambda>i. (E_FAIL, None))\<rparr>"

text \<open>A string of 1024 characters: with its terminator it needs 2050 bytes.\<close>

definition long_value :: wstring where
  "long_value = replicate 1024 (CHR ''a'')"

section \<open>Status codes\<close>

lemmas status_defs = S_OK_def S_FALSE_def E_NOTIMPL_def E_NOINTERFACE_def E_POINTER_def E_FAIL_def
  E_OUTOFMEMORY_def E_INVALIDARG_def CLASS_E_NOAGGREGATION_def CLASS_E_CLASSNOTAVAILABLE_def

lemma FAILED_codes:
  "FAILED E_FAIL" "FAILED E_INVALIDARG" "FAILED E_NOTIMPL" "FAILED E_OUTOFMEMORY"
  "FAILED CLASS_E_NOAGGREGATION" "FAILED CLASS_E_CLASSNOTAVAILABLE" "\<not> FAILED S_OK" "SUCCEEDED S_OK"
  by (simp_all add: FAILED_def SUCCEEDED_def status_defs)

lemma FAILED_iff_not_SUCCEEDED: "FAILED hr \<longleftrightarrow> \<not> SUCCEEDED hr"
  by (auto simp: FAILED_def SUCCEEDED_def)

section \<open>Reading the sample registries\<close>

text \<open>
  In a registry built by \<open>registry_of\<close> a value of 1024 or more characters does not fit the
  buffer of \<open>ReadRegString\<close>, which then returns the empty string as for a missing value.
\<close>

lemma ReadRegString_registry_of:
  "ReadRegString (registry_of settings) name =
     (case map_of settings name of
        None \<Rightarrow> []
      | Some v \<Rightarrow> if 1024 \<le> length v then [] else v)"
  by (simp add: ReadRegString_def registry_of_def ERROR_SUCCESS_def REG_SZ_def Let_def
      split: option.splits)

lemma length_long_value: "length long_value = 1024"
  by (simp only: long_value_def length_replicate)

section \<open>State and flags\<close>

text \<open>
  C8. Whatever the selection (null included) and whatever \<open>fOkToBeSlow\<close>, \<open>GetState\<close>
  sets the command state to \<open>ECS_ENABLED\<close> and returns success; \<open>GetFlags\<close> reports
  \<open>ECF_DEFAULT\<close> with success.
\<close>

theorem GetState_GetFlags_constant:
  "GetState psiItemArray fOkToBeSlow = (S_OK, ECS_ENABLED) \<and> GetFlags = (S_OK, ECF_DEFAULT)
   \<and> SUCCEEDED S_OK"
  by (simp add: GetState_def GetFlags_def FAILED_codes)

section \<open>Title and icon\<close>

text \<open>
  C4, as the specification states it, fails: a display name of 1024 characters is persisted
  and not empty, the query into the 2048-byte buffer answers \<open>ERROR_MORE_DATA\<close>,
  \<open>ReadRegString\<close> returns the empty string, and \<open>GetTitle\<close> returns the fallback label
  instead of the persisted value.
\<close>

theorem GetTitle_long_name_falls_back:
  "length long_value = 1024
   \<and> GetTitle (registry_of [(''DisplayName'', long_value)]) (os_launching Launched)
       = (S_OK, Some ''Edit with Bascanka'')
   \<and> ''Edit with Bascanka'' \<noteq> long_value"
proof -
  have "length ''Edit with Bascanka'' \<noteq> length long_value"
    by (simp add: length_long_value)
  then have "''Edit with Bascanka'' \<noteq> long_value" by metis
  then show ?thesis
    by (simp add: GetTitle_def ReadRegString_registry_of length_long_value SHStrDupW_def
        os_launching_def)
qed

text \<open>
  C4, amended. \<open>GetTitle\<close> hands to \<open>SHStrDupW\<close> the fixed label \<open>Edit with Bascanka\<close> when
  the display-name setting is not read as a string (the key does not open, the query into the
  buffer of 1024 wide characters does not succeed, or the value is not of type \<open>REG_SZ\<close>) or
  is read as the empty string, and the string read otherwise; the duplicate is the title
  returned whenever the memory for it is obtained. For a registry that holds its settings as
  \<open>REG_SZ\<close> strings this means: the fallback label when the display name is missing, empty or
  1024 or more characters long, and the persisted display name when it has 1 to 1023
  characters, none of them the null character.
\<close>

theorem GetTitle_fallback:
  "GetTitle reg env =
     SHStrDupW env
       (let q = RegQueryValueExW reg ''DisplayName'' 2048
        in if RegOpenKeyExW reg \<noteq> ERROR_SUCCESS \<or> q_status q \<noteq> ERROR_SUCCESS \<or> q_type q \<noteq> REG_SZ
              \<or> q_buffer q = []
           then ''Edit with Bascanka'' else q_buffer q)
   \<and> (CoTaskMemAlloc_ok env \<longrightarrow> (\<forall>title. SHStrDupW env title = (S_OK, Some title)))
   \<and> (map_of settings ''DisplayName'' = None \<longrightarrow>
         GetTitle (registry_of settings) env = SHStrDupW env ''Edit with Bascanka'')
   \<and> (map_of settings ''DisplayName'' = Some v \<and> (v = [] \<or> 1024 \<le> length v) \<longrightarrow>
         GetTitle (registry_of settings) env = SHStrDupW env ''Edit with Bascanka'')
   \<and> (map_of settings ''DisplayName'' = Some v \<and> v \<noteq> [] \<and> length v < 1024 \<and> CHR 0x00 \<notin> set v \<longrightarrow>
         GetTitle (registry_of settings) env = SHStrDupW env v)"
proof (intro conjI impI)
  show "GetTitle reg env =
     SHStrDupW env
       (let q = RegQueryValueExW reg ''DisplayName'' 2048
        in if RegOpenKeyExW reg \<noteq> ERROR_SUCCESS \<or> q_status q \<noteq> ERROR_SUCCESS \<or> q_type q \<noteq> REG_SZ
              \<or> q_buffer q = []
           then ''Edit with Bascanka'' else q_buffer q)"
    by (simp add: GetTitle_def ReadRegString_def SHStrDupW_def Let_def)
  show "\<forall>title. SHStrDupW env title = (S_OK, Some title)" if "CoTaskMemAlloc_ok env"
    using that by (simp add: SHStrDupW_def)
  show "GetTitle (registry_of settings) env = SHStrDupW env ''Edit with Bascanka''"
    if "map_of settings ''DisplayName'' = None"
    using that by (simp add: GetTitle_def ReadRegString_registry_of)
  show "GetTitle (registry_of settings) env = SHStrDupW env ''Edit with Bascanka''"
    if "map_of settings ''DisplayName'' = Some v \<and> (v = [] \<or> 1024 \<le> length v)"
    using that by (auto simp: GetTitle_def ReadRegString_registry_of)
  show "GetTitle (registry_of settings) env = SHStrDupW env v"
    if "map_of settings ''DisplayName'' = Some v \<and> v \<noteq> [] \<and> length v < 1024 \<and> CHR 0x00 \<notin> set v"
    using that by (simp add: GetTitle_def ReadRegString_registry_of)
qed

theorem GetTitle_fallback_witness:
  "GetTitle (registry_of [(''DisplayName'', ''Open in Bascanka'')]) (os_launching Launched)
     = (S_OK, Some ''Open in Bascanka'')
   \<and> GetTitle (registry_of [(''DisplayName'', '''')]) (os_launching Launched)
     = (S_OK, Some ''Edit with Bascanka'')
   \<and> GetTitle (registry_of []) (os_launching Launched) = (S_OK, Some ''Edit with Bascanka'')
   \<and> GetTitle (registry_of [(''DisplayName'', long_value)]) (os_launching Launched)
     = (S_OK, Some ''Edit with Bascanka'')"
proof -
  have ok: "CoTaskMemAlloc_ok (os_launching Launched)"
    by (simp add: os_launching_def)
  have a: "map_of [(''DisplayName'', ''Open in Bascanka'')] ''DisplayName'' = Some ''Open in Bascanka''
      \<and> ''Open in Bascanka'' \<noteq> [] \<and> length ''Open in Bascanka'' < 1024
      \<and> CHR 0x00 \<notin> set ''Open in Bascanka''"
    by simp
  have b: "map_of [(''DisplayName'', '''')] ''DisplayName'' = Some []
      \<and> ([] = [] \<or> 1024 \<le> length ([] :: wstring))"
    by simp
  have c: "map_of ([] :: (wstring \<times> wstring) list) ''DisplayName'' = None"
    by simp
  have d: "map_of [(''DisplayName'', long_value)] ''DisplayName'' = Some long_value
      \<and> (long_value = [] \<or> 1024 \<le> length long_value)"
    by (simp add: length_long_value)
  show ?thesis
    using GetTitle_fallback [of "registry_of []" "os_launching Launched"
        "[(''DisplayName'', ''Open in Bascanka'')]" "''Open in Bascanka''"]
      GetTitle_fallback [of "registry_of []" "os_launching Launched" "[(''DisplayName'', '''')]" "[]"]
      GetTitle_fallback [of "registry_of []" "os_launching Launched" "[]" "[]"]
      GetTitle_fallback [of "registry_of []" "os_launching Launched" "[(''DisplayName'', long_value)]"
        long_value]
      ok a b c d
    by simp
qed

text \<open>
  C5, as the specification states it, fails: with no icon path and an executable path of 1024
  characters persisted, the executable-path setting is set, yet \<open>ReadRegString\<close> cannot read
  it and \<open>GetIcon\<close> omits the icon instead of returning the path followed by \<open>,0\<close>.
\<close>

theorem GetIcon_long_exe_path_omits_icon:
  "length long_value = 1024
   \<and> GetIcon (registry_of [(''ExePath'', long_value)]) (os_launching Launched) = (E_NOTIMPL, None)"
  by (simp add: GetIcon_def ReadRegString_registry_of length_long_value)

text \<open>
  C5, amended. When the icon-path setting is not read as a non-empty string (the key does not
  open, the query into the buffer of 1024 wide characters does not succeed, the value is not of
  type \<open>REG_SZ\<close>, or it is empty) and the executable-path setting is read as a non-empty
  string, \<open>GetIcon\<close> returns the path read followed by \<open>,0\<close>; when neither is read as a
  non-empty string it sets the icon output to null and returns \<open>E_NOTIMPL\<close>, which is not a
  success. For a registry that holds its settings as \<open>REG_SZ\<close> strings, with the icon path
  missing or empty: the executable path followed by \<open>,0\<close> when that path has 1 to 1023
  characters, none of them the null character, and no icon when it is missing, empty or 1024
  or more characters long.
\<close>

theorem GetIcon_fallback:
  "(let qi = RegQueryValueExW reg ''IconPath'' 2048; qe = RegQueryValueExW reg ''ExePath'' 2048;
        icon_unset = (RegOpenKeyExW reg \<noteq> ERROR_SUCCESS \<or> q_status qi \<noteq> ERROR_SUCCESS
                      \<or> q_type qi \<noteq> REG_SZ \<or> q_buffer qi = []);
        exe_unset = (RegOpenKeyExW reg \<noteq> ERROR_SUCCESS \<or> q_status qe \<noteq> ERROR_SUCCESS
                      \<or> q_type qe \<noteq> REG_SZ \<or> q_buffer qe = [])
    in (icon_unset \<and> \<not> exe_unset \<longrightarrow> GetIcon reg env = SHStrDupW env (q_buffer qe @ '',0''))
     \<and> (icon_unset \<and> exe_unset \<longrightarrow> GetIcon reg env = (E_NOTIMPL, None) \<and> \<not> SUCCEEDED E_NOTIMPL))
   \<and> (CoTaskMemAlloc_ok env \<longrightarrow> (\<forall>icon. SHStrDupW env icon = (S_OK, Some icon)))
   \<and> (map_of settings ''IconPath'' \<in> {None, Some []} \<and> map_of settings ''ExePath'' = Some v
        \<and> v \<noteq> [] \<and> length v < 1024 \<and> CHR 0x00 \<notin> set v \<longrightarrow>
         GetIcon (registry_of settings) env = SHStrDupW env (v @ '',0''))
   \<and> (map_of settings ''IconPath'' \<in> {None, Some []} \<and> map_of settings ''ExePath'' = Some v
        \<and> (v = [] \<or> 1024 \<le> length v) \<longrightarrow>
         GetIcon (registry_of settings) env = (E_NOTIMPL, None))
   \<and> (map_of settings ''IconPath'' \<in> {None, Some []} \<and> map_of settings ''ExePath'' = None \<longrightarrow>
         GetIcon (registry_of settings) env = (E_NOTIMPL, None))"
proof (intro conjI impI)
  show "let qi = RegQueryValueExW reg ''IconPath'' 2048; qe = RegQueryValueExW reg ''ExePath'' 2048;
        icon_unset = (RegOpenKeyExW reg \<noteq> ERROR_SUCCESS \<or> q_status qi \<noteq> ERROR_SUCCESS
                      \<or> q_type qi \<noteq> REG_SZ \<or> q_buffer qi = []);
        exe_unset = (RegOpenKeyExW reg \<noteq> ERROR_SUCCESS \<or> q_status qe \<noteq> ERROR_SUCCESS
                      \<or> q_type qe \<noteq> REG_SZ \<or> q_buffer qe = [])
    in (icon_unset \<and> \<not> exe_unset \<longrightarrow> GetIcon reg env = SHStrDupW env (q_buffer qe @ '',0''))
     \<and> (icon_unset \<and> exe_unset \<longrightarrow> GetIcon reg env = (E_NOTIMPL, None) \<and> \<not> SUCCEEDED E_NOTIMPL)"
    by (simp add: GetIcon_def ReadRegString_def SHStrDupW_def Let_def SUCCEEDED_def E_NOTIMPL_def)
  show "\<forall>icon. SHStrDupW env icon = (S_OK, Some icon)" if "CoTaskMemAlloc_ok env"
    using that by (simp add: SHStrDupW_def)
  show "GetIcon (registry_of settings) env = SHStrDupW env (v @ '',0'')"
    if "map_of settings ''IconPath'' \<in> {None, Some []} \<and> map_of settings ''ExePath'' = Some v
        \<and> v \<noteq> [] \<and> length v < 1024 \<and> CHR 0x00 \<notin> set v"
    using that by (auto simp: GetIcon_def ReadRegString_registry_of)
  show "GetIcon (registry_of settings) env = (E_NOTIMPL, None)"
    if "map_of settings ''IconPath'' \<in> {None, Some []} \<and> map_of settings ''ExePath'' = Some v
        \<and> (v = [] \<or> 1024 \<le> length v)"
    using that by (auto simp: GetIcon_def ReadRegString_registry_of)
  show "GetIcon (registry_of settings) env = (E_NOTIMPL, None)"
    if "map_of settings ''IconPath'' \<in> {None, Some []} \<and> map_of settings ''ExePath'' = None"
    using that by (auto simp: GetIcon_def ReadRegString_registry_of)
qed

theorem GetIcon_fallback_witness:
  "GetIcon (registry_of [(''ExePath'', ''C:/b.exe'')]) (os_launching Launched)
     = (S_OK, Some ''C:/b.exe,0'')
   \<and> GetIcon (registry_of [(''DisplayName'', ''x'')]) (os_launching Launched) = (E_NOTIMPL, None)
   \<and> GetIcon (registry_of [(''ExePath'', long_value)]) (os_launching Launched) = (E_NOTIMPL, None)"
proof -
  have ok: "CoTaskMemAlloc_ok (os_launching Launched)"
    by (simp add: os_launching_def)
  have a: "map_of [(''ExePath'', ''C:/b.exe'')] ''IconPath'' \<in> {None, Some []}
      \<and> map_of [(''ExePath'', ''C:/b.exe'')] ''ExePath'' = Some ''C:/b.exe''
      \<and> ''C:/b.exe'' \<noteq> [] \<and> length ''C:/b.exe'' < 1024 \<and> CHR 0x00 \<notin> set ''C:/b.exe''"
    by simp
  have b: "map_of [(''DisplayName'', ''x'')] ''IconPath'' \<in> {None, Some []}
      \<and> map_of [(''DisplayName'', ''x'')] ''ExePath'' = None"
    by simp
  have c: "map_of [(''ExePath'', long_value)] ''IconPath'' \<in> {None, Some []}
      \<and> map_of [(''ExePath'', long_value)] ''ExePath'' = Some long_value
      \<and> (long_value = [] \<or> 1024 \<le> length long_value)"
    by (simp add: length_long_value)
  show ?thesis
    using GetIcon_fallback [of "registry_of []" "os_launching Launched"
        "[(''ExePath'', ''C:/b.exe'')]" "''C:/b.exe''"]
      GetIcon_fallback [of "registry_of []" "os_launching Launched" "[(''DisplayName'', ''x'')]" "[]"]
      GetIcon_fallback [of "registry_of []" "os_launching Launched" "[(''ExePath'', long_value)]"
        long_value]
      ok a b c
    by simp
qed

section \<open>Invoke\<close>

subsection \<open>Auxiliary facts\<close>

lemma FAILED_iff_bit: "FAILED hr \<longleftrightarrow> bit hr 31"
  using bit_last_iff [of hr] by (simp add: FAILED_def)

lemma bit31_const: "bit (0x80000000 :: 32 word) 31"
  by (simp add: bit_iff_odd drop_bit_eq_div)

lemma HRESULT_FROM_WIN32_fails:
  assumes "err \<noteq> 0" shows "FAILED (HRESULT_FROM_WIN32 err)"
proof (cases "sint err \<le> 0")
  case True
  moreover have "sint err \<noteq> 0" using assms by (simp add: signed_eq_0_iff)
  ultimately show ?thesis by (simp add: HRESULT_FROM_WIN32_def FAILED_def)
next
  case False
  then show ?thesis
    by (simp add: HRESULT_FROM_WIN32_def FAILED_iff_bit bit_or_iff bit31_const)
qed

lemma ReadRegString_answers:
  "ReadRegString reg name =
     (let q = RegQueryValueExW reg name 2048
      in if RegOpenKeyExW reg \<noteq> ERROR_SUCCESS \<or> q_status q \<noteq> ERROR_SUCCESS \<or> q_type q \<noteq> REG_SZ
         then [] else q_buffer q)"
  by (simp add: ReadRegString_def Let_def)

text \<open>An iteration appends a quoted path exactly when the item yields one.\<close>

lemma Invoke_item_path:
  "Invoke_item sel i args =
     (case item_path sel i of
        None \<Rightarrow> args
      | Some p \<Rightarrow> (if args \<noteq> [] then args @ [CHR '' ''] else args) @ [dquote] @ p @ [dquote])"
  by (simp add: Invoke_item_def item_path_def split: prod.splits option.splits)

lemma spec_argument_string_Nil_iff: "spec_argument_string ps = [] \<longleftrightarrow> ps = []"
  by (induction ps rule: spec_argument_string.induct) simp_all

lemma spec_argument_string_snoc:
  "spec_argument_string (ps @ [p]) =
     (if ps = [] then [] else spec_argument_string ps @ [CHR '' '']) @ [dquote] @ p @ [dquote]"
  by (induction ps rule: spec_argument_string.induct) simp_all

text \<open>The loop invariant: the string built so far is the worded one for the paths seen so far.\<close>

lemma Invoke_loop_spec:
  "fold (\<lambda>i args. Invoke_item sel (of_nat i) args) is (spec_argument_string ps)
     = spec_argument_string (ps @ List.map_filter (\<lambda>i. item_path sel (of_nat i)) is)"
proof (induction "is" arbitrary: ps)
  case Nil
  then show ?case by simp
next
  case (Cons i "is")
  show ?case
  proof (cases "item_path sel (of_nat i)")
    case None
    have "Invoke_item sel (of_nat i) (spec_argument_string ps) = spec_argument_string ps"
      by (simp add: Invoke_item_path None)
    then show ?thesis
      using Cons.IH [of ps] by (simp add: None)
  next
    case (Some p)
    have "Invoke_item sel (of_nat i) (spec_argument_string ps) = spec_argument_string (ps @ [p])"
      by (simp add: Invoke_item_path Some spec_argument_string_snoc spec_argument_string_Nil_iff)
    then show ?thesis
      using Cons.IH [of "ps @ [p]"] by (simp add: Some)
  qed
qed

lemma Invoke_args_spec: "Invoke_args sel count = spec_argument_string (selected_paths sel count)"
  using Invoke_loop_spec [of sel "[0..<unat count]" "[]"]
  by (simp add: Invoke_args_def selected_paths_def)

lemma selected_paths_0: "selected_paths sel 0 = []"
  by (simp add: selected_paths_def)

lemma selected_paths_Nil_iff:
  "selected_paths sel count = [] \<longleftrightarrow> (\<forall>i<unat count. item_path sel (of_nat i) = None)"
proof -
  have "List.map_filter f xs = [] \<longleftrightarrow> (\<forall>x\<in>set xs. f x = None)" for f :: "nat \<Rightarrow> wstring option" and xs
    by (induction xs) (auto simp: map_filter_simps split: option.splits)
  then show ?thesis by (auto simp: selected_paths_def)
qed

text \<open>Either no launch is requested, or exactly one, and its outcome is the status.\<close>

lemma Invoke_launch_form:
  "snd (Invoke reg env psi) = [] \<or>
   (\<exists>sel. psi = Some sel \<and> ReadRegString reg ''ExePath'' \<noteq> [] \<and>
      snd (Invoke reg env psi) =
        [\<lparr>fMask = SEE_MASK_DEFAULT, lpVerb = ''open'', lpFile = ReadRegString reg ''ExePath'',
          lpParameters = Invoke_args sel (snd (GetCount sel)), nShow = SW_SHOWNORMAL\<rparr>] \<and>
      fst (Invoke reg env psi) =
        (case ShellExecuteExW env (hd (snd (Invoke reg env psi))) of
           Launched \<Rightarrow> S_OK | LaunchFailed err \<Rightarrow> HRESULT_FROM_WIN32 err))"
  by (cases psi) (auto simp: Invoke_def Let_def split: prod.splits launch_result.splits)

lemmas sample_defs = registry_of_def os_launching_def selection_of_def path_item_def virtual_item_def
  ERROR_SUCCESS_def REG_SZ_def

lemmas Invoke_eval = Invoke_def Invoke_args_def Invoke_item_def ReadRegString_def Let_def
  SUCCEEDED_def FAILED_def S_OK_def E_FAIL_def E_INVALIDARG_def SEE_MASK_DEFAULT_def SW_SHOWNORMAL_def

lemma upt_0_2: "[0..<2] = [0, Suc 0]"
  by (simp add: upt_rec)

lemma upt_0_3: "[0..<3] = [0, Suc 0, Suc (Suc 0)]"
  by (simp add: upt_rec)

subsection \<open>The empty selection\<close>

text \<open>
  C1. The specification has \<open>Invoke\<close> return a failure status for a non-null selection
  with no items. The code returns the status of \<open>GetCount\<close> in that branch: with an
  executable path configured and a selection whose count query succeeds with 0, \<open>Invoke\<close>
  returns \<open>S_OK\<close>, which is not a failure; no process is launched.
\<close>

theorem Invoke_empty_selection_returns_S_OK:
  "GetCount (selection_of []) = (S_OK, 0)
   \<and> Invoke (registry_of [(''ExePath'', ''C:/b.exe'')]) (os_launching Launched) (Some (selection_of []))
       = (S_OK, [])
   \<and> \<not> FAILED S_OK"
  by (simp add: Invoke_eval sample_defs)

subsection \<open>The launch request\<close>

text \<open>
  C3, as the specification states it, fails in two ways. A selection of one item that yields no
  file-system path is not empty, the executable path is configured, and no launch is requested.
  And an executable path of 1024 characters is configured but not read by \<open>ReadRegString\<close>,
  so that no launch is requested for a selection whose item does yield a path.
\<close>

theorem Invoke_no_launch_despite_selection:
  "GetCount (selection_of [virtual_item]) = (S_OK, 1)
   \<and> ReadRegString (registry_of [(''ExePath'', ''C:/b.exe'')]) ''ExePath'' = ''C:/b.exe''
   \<and> Invoke (registry_of [(''ExePath'', ''C:/b.exe'')]) (os_launching Launched)
        (Some (selection_of [virtual_item])) = (E_FAIL, [])
   \<and> length long_value = 1024
   \<and> item_path (selection_of [path_item ''C:/a.txt'']) 0 = Some ''C:/a.txt''
   \<and> Invoke (registry_of [(''ExePath'', long_value)]) (os_launching Launched)
        (Some (selection_of [path_item ''C:/a.txt''])) = (E_FAIL, [])"
proof -
  have "Invoke (registry_of [(''ExePath'', long_value)]) (os_launching Launched)
        (Some (selection_of [path_item ''C:/a.txt''])) = (E_FAIL, [])"
    by (simp add: Invoke_def ReadRegString_registry_of length_long_value)
  moreover have "item_path (selection_of [path_item ''C:/a.txt'']) 0 = Some ''C:/a.txt''"
    by (simp add: item_path_def selection_of_def path_item_def SUCCEEDED_def S_OK_def)
  ultimately show ?thesis
    by (simp add: Invoke_eval sample_defs length_long_value)
qed

text \<open>
  C3, amended. When the executable-path setting is read as a non-empty string (the key opens
  and the query of \<open>ExePath\<close> into the buffer of 1024 wide characters succeeds with type
  \<open>REG_SZ\<close>), the count query of the selection succeeds and at least one selected item yields
  a file-system path, \<open>Invoke\<close> requests exactly one launch: its executable is the path read
  and its argument string is made of the paths of the items that yield one, in selection order,
  each enclosed in double quotes and consecutive ones separated by a single space. The status
  is the outcome of that launch.
\<close>

theorem Invoke_single_launch:
  assumes "RegOpenKeyExW reg = ERROR_SUCCESS"
    and "q_status (RegQueryValueExW reg ''ExePath'' 2048) = ERROR_SUCCESS"
    and "q_type (RegQueryValueExW reg ''ExePath'' 2048) = REG_SZ"
    and "q_buffer (RegQueryValueExW reg ''ExePath'' 2048) \<noteq> []"
    and "GetCount sel = (hr, count)" and "SUCCEEDED hr"
    and "\<exists>i<unat count. item_path sel (of_nat i) \<noteq> None"
  shows "Invoke reg env (Some sel) =
     (let sei = \<lparr>fMask = SEE_MASK_DEFAULT, lpVerb = ''open'',
                 lpFile = q_buffer (RegQueryValueExW reg ''ExePath'' 2048),
                 lpParameters = spec_argument_string (selected_paths sel count),
                 nShow = SW_SHOWNORMAL\<rparr>
      in (case ShellExecuteExW env sei of Launched \<Rightarrow> S_OK | LaunchFailed err \<Rightarrow> HRESULT_FROM_WIN32 err,
          [sei]))"
proof -
  have exe: "ReadRegString reg ''ExePath'' = q_buffer (RegQueryValueExW reg ''ExePath'' 2048)"
    using assms(1-3) by (simp add: ReadRegString_answers)
  have paths: "selected_paths sel count \<noteq> []"
    using assms(7) by (simp add: selected_paths_Nil_iff)
  then have "count \<noteq> 0"
    using selected_paths_0 by auto
  moreover have "Invoke_args sel count \<noteq> []"
    using paths by (simp add: Invoke_args_spec spec_argument_string_Nil_iff)
  moreover have "\<not> FAILED hr"
    using assms(6) by (simp add: FAILED_iff_not_SUCCEEDED)
  ultimately show ?thesis
    using assms(4,5)
    by (simp add: Invoke_def exe Let_def Invoke_args_spec split: launch_result.splits)
qed

theorem Invoke_single_launch_witness:
  "Invoke (registry_of [(''ExePath'', ''C:/b.exe'')]) (os_launching Launched)
     (Some (selection_of [path_item ''C:/a.txt'', virtual_item, path_item ''D:/b c.txt'']))
   = (S_OK, [\<lparr>fMask = SEE_MASK_DEFAULT, lpVerb = ''open'', lpFile = ''C:/b.exe'',
              lpParameters = [dquote] @ ''C:/a.txt'' @ [dquote] @ '' '' @ [dquote] @ ''D:/b c.txt'' @ [dquote],
              nShow = SW_SHOWNORMAL\<rparr>])"
proof -
  let ?reg = "registry_of [(''ExePath'', ''C:/b.exe'')]"
  let ?sel = "selection_of [path_item ''C:/a.txt'', virtual_item, path_item ''D:/b c.txt'']"
  have h1: "RegOpenKeyExW ?reg = ERROR_SUCCESS"
    and h2: "q_status (RegQueryValueExW ?reg ''ExePath'' 2048) = ERROR_SUCCESS"
    and h3: "q_type (RegQueryValueExW ?reg ''ExePath'' 2048) = REG_SZ"
    and h4: "q_buffer (RegQueryValueExW ?reg ''ExePath'' 2048) \<noteq> []"
    by (simp_all add: registry_of_def)
  have h5: "GetCount ?sel = (S_OK, 3)" by (simp add: selection_of_def)
  have h6: "SUCCEEDED S_OK" by (rule FAILED_codes)
  have "item_path ?sel (of_nat 0) \<noteq> None"
    by (simp add: item_path_def selection_of_def path_item_def SUCCEEDED_def S_OK_def)
  then have h7: "\<exists>i<unat (3::DWORD). item_path ?sel (of_nat i) \<noteq> None"
    by (intro exI [of _ 0]) simp
  have paths: "selected_paths ?sel 3 = [''C:/a.txt'', ''D:/b c.txt'']"
    by (simp add: selected_paths_def upt_0_3 map_filter_simps item_path_def selection_of_def
        path_item_def virtual_item_def SUCCEEDED_def S_OK_def E_INVALIDARG_def)
  show ?thesis
    using Invoke_single_launch [OF h1 h2 h3 h4 h5 h6 h7, of "os_launching Launched"]
    by (simp add: paths registry_of_def os_launching_def)
qed

subsection \<open>Failures of Invoke\<close>

text \<open>
  C6. The specification has \<open>Invoke\<close> return a failure status whenever the launch call fails.
  The code returns \<open>HRESULT_FROM_WIN32 (GetLastError ())\<close> without looking at the code, and
  the macro maps the error code 0 to \<open>S_OK\<close>: when \<open>ShellExecuteExW\<close> fails and the last
  error is 0, \<open>Invoke\<close> reports success for a launch that did not happen.
\<close>

theorem Invoke_launch_failure_code_0:
  "Invoke (registry_of [(''ExePath'', ''C:/b.exe'')]) (os_launching (LaunchFailed 0))
        (Some (selection_of [path_item ''C:/a.txt'']))
     = (S_OK, [\<lparr>fMask = SEE_MASK_DEFAULT, lpVerb = ''open'', lpFile = ''C:/b.exe'',
                lpParameters = [dquote] @ ''C:/a.txt'' @ [dquote], nShow = SW_SHOWNORMAL\<rparr>])
   \<and> \<not> FAILED S_OK"
  by (simp add: Invoke_eval sample_defs HRESULT_FROM_WIN32_def)

text \<open>
  The other failure paths behave as the specification says. When the executable-path setting
  is not read as a non-empty string, \<open>Invoke\<close> returns a failure status and launches nothing.
  When the launch call fails with error code \<open>err\<close>, \<open>Invoke\<close> returns
  \<open>HRESULT_FROM_WIN32 err\<close>, a failure status whenever \<open>err\<close> is not 0. \<open>Invoke\<close> never
  makes more than one launch request, so a failed launch is not retried.
\<close>

theorem Invoke_failure_statuses:
  "(let qe = RegQueryValueExW reg ''ExePath'' 2048
    in RegOpenKeyExW reg \<noteq> ERROR_SUCCESS \<or> q_status qe \<noteq> ERROR_SUCCESS \<or> q_type qe \<noteq> REG_SZ
         \<or> q_buffer qe = []
       \<longrightarrow> FAILED (fst (Invoke reg env psiItemArray)) \<and> snd (Invoke reg env psiItemArray) = [])
   \<and> (\<forall>sei\<in>set (snd (Invoke reg env psiItemArray)). \<forall>err.
         ShellExecuteExW env sei = LaunchFailed err \<longrightarrow>
           fst (Invoke reg env psiItemArray) = HRESULT_FROM_WIN32 err
           \<and> (err \<noteq> 0 \<longrightarrow> FAILED (HRESULT_FROM_WIN32 err)))
   \<and> length (snd (Invoke reg env psiItemArray)) \<le> 1"
proof (intro conjI)
  show "let qe = RegQueryValueExW reg ''ExePath'' 2048
    in RegOpenKeyExW reg \<noteq> ERROR_SUCCESS \<or> q_status qe \<noteq> ERROR_SUCCESS \<or> q_type qe \<noteq> REG_SZ
         \<or> q_buffer qe = []
       \<longrightarrow> FAILED (fst (Invoke reg env psiItemArray)) \<and> snd (Invoke reg env psiItemArray) = []"
    by (cases psiItemArray) (auto simp: Invoke_def ReadRegString_answers Let_def FAILED_codes)
  show "\<forall>sei\<in>set (snd (Invoke reg env psiItemArray)). \<forall>err.
         ShellExecuteExW env sei = LaunchFailed err \<longrightarrow>
           fst (Invoke reg env psiItemArray) = HRESULT_FROM_WIN32 err
           \<and> (err \<noteq> 0 \<longrightarrow> FAILED (HRESULT_FROM_WIN32 err))"
    using Invoke_launch_form [of reg env psiItemArray]
    by (auto simp: HRESULT_FROM_WIN32_fails)
  show "length (snd (Invoke reg env psiItemArray)) \<le> 1"
    using Invoke_launch_form [of reg env psiItemArray] by auto
qed

theorem Invoke_failure_statuses_witness:
  "Invoke (registry_of []) (os_launching Launched) (Some (selection_of [path_item ''C:/a.txt'']))
     = (E_FAIL, [])
   \<and> Invoke (registry_of [(''ExePath'', ''C:/b.exe'')]) (os_launching (LaunchFailed 2))
        (Some (selection_of [path_item ''C:/a.txt'']))
     = (0x80070002, [\<lparr>fMask = SEE_MASK_DEFAULT, lpVerb = ''open'', lpFile = ''C:/b.exe'',
                lpParameters = [dquote] @ ''C:/a.txt'' @ [dquote], nShow = SW_SHOWNORMAL\<rparr>])
   \<and> FAILED (fst (Invoke (registry_of []) (os_launching Launched) (Some (selection_of [path_item ''C:/a.txt'']))))
   \<and> FAILED (fst (Invoke (registry_of [(''ExePath'', ''C:/b.exe'')]) (os_launching (LaunchFailed 2))
        (Some (selection_of [path_item ''C:/a.txt'']))))"
proof -
  have a: "Invoke (registry_of []) (os_launching Launched) (Some (selection_of [path_item ''C:/a.txt'']))
     = (E_FAIL, [])"
    by (simp add: Invoke_eval sample_defs)
  have b: "Invoke (registry_of [(''ExePath'', ''C:/b.exe'')]) (os_launching (LaunchFailed 2))
        (Some (selection_of [path_item ''C:/a.txt'']))
     = (0x80070002, [\<lparr>fMask = SEE_MASK_DEFAULT, lpVerb = ''open'', lpFile = ''C:/b.exe'',
                lpParameters = [dquote] @ ''C:/a.txt'' @ [dquote], nShow = SW_SHOWNORMAL\<rparr>])"
    by (simp add: Invoke_eval sample_defs HRESULT_FROM_WIN32_def)
  show ?thesis
    using Invoke_failure_statuses [of "registry_of []" "os_launching Launched"
        "Some (selection_of [path_item ''C:/a.txt''])"]
      Invoke_failure_statuses [of "registry_of [(''ExePath'', ''C:/b.exe'')]" "os_launching (LaunchFailed 2)"
        "Some (selection_of [path_item ''C:/a.txt''])"]
    unfolding a b
    by (simp add: registry_of_def os_launching_def Let_def HRESULT_FROM_WIN32_def)
qed

subsection \<open>Null selections and items without a path\<close>

text \<open>
  C10, as the specification states it, fails in two ways. A launch is requested although an
  item was skipped, when another item yields a path; and a selection whose count query fails
  makes \<open>Invoke\<close> return the status of the query, which need not be \<open>E_FAIL\<close>.
\<close>

theorem Invoke_skip_or_count_failure:
  "item_path (selection_of [virtual_item, path_item ''C:/a.txt'']) 0 = None
   \<and> Invoke (registry_of [(''ExePath'', ''C:/b.exe'')]) (os_launching Launched)
        (Some (selection_of [virtual_item, path_item ''C:/a.txt'']))
     = (S_OK, [\<lparr>fMask = SEE_MASK_DEFAULT, lpVerb = ''open'', lpFile = ''C:/b.exe'',
                lpParameters = [dquote] @ ''C:/a.txt'' @ [dquote], nShow = SW_SHOWNORMAL\<rparr>])
   \<and> Invoke (registry_of [(''ExePath'', ''C:/b.exe'')]) (os_launching Launched)
        (Some (uncountable_selection E_OUTOFMEMORY))
     = (E_OUTOFMEMORY, [])
   \<and> E_OUTOFMEMORY \<noteq> E_FAIL"
  by (simp add: Invoke_eval sample_defs uncountable_selection_def item_path_def upt_0_2
      E_OUTOFMEMORY_def)

text \<open>
  C10, amended. A null selection makes \<open>Invoke\<close> return \<open>E_INVALIDARG\<close> without a launch.
  An item that yields no file-system path leaves the argument string as it is, so that the
  string holds the paths of the other items only. When the count query succeeds with a count
  that is not 0 and no selected item yields a path, \<open>Invoke\<close> returns \<open>E_FAIL\<close> without a
  launch.
\<close>

theorem Invoke_rejections:
  "Invoke reg env None = (E_INVALIDARG, [])
   \<and> (item_path sel i = None \<longrightarrow> Invoke_item sel i args = args)
   \<and> Invoke_args sel count = spec_argument_string (selected_paths sel count)
   \<and> (GetCount sel = (hr, count) \<and> SUCCEEDED hr \<and> count \<noteq> 0
        \<and> (\<forall>i<unat count. item_path sel (of_nat i) = None)
       \<longrightarrow> Invoke reg env (Some sel) = (E_FAIL, []))"
proof (intro conjI impI)
  show "Invoke reg env None = (E_INVALIDARG, [])"
    by (simp add: Invoke_def)
  show "Invoke_item sel i args = args" if "item_path sel i = None"
    using that by (simp add: Invoke_item_path)
  show "Invoke_args sel count = spec_argument_string (selected_paths sel count)"
    by (rule Invoke_args_spec)
  show "Invoke reg env (Some sel) = (E_FAIL, [])"
    if "GetCount sel = (hr, count) \<and> SUCCEEDED hr \<and> count \<noteq> 0
        \<and> (\<forall>i<unat count. item_path sel (of_nat i) = None)"
  proof -
    from that have "selected_paths sel count = []"
      by (simp add: selected_paths_Nil_iff)
    then have "Invoke_args sel count = []"
      by (simp add: Invoke_args_spec)
    with that show ?thesis
      by (simp add: Invoke_def Let_def FAILED_iff_not_SUCCEEDED)
  qed
qed

theorem Invoke_rejections_witness:
  "Invoke (registry_of [(''ExePath'', ''C:/b.exe'')]) (os_launching Launched) None = (E_INVALIDARG, [])
   \<and> Invoke_item (selection_of [virtual_item, path_item ''C:/a.txt'']) 0 [] = []
   \<and> Invoke_args (selection_of [virtual_item, path_item ''C:/a.txt'']) 2 = [dquote] @ ''C:/a.txt'' @ [dquote]
   \<and> Invoke (registry_of [(''ExePath'', ''C:/b.exe'')]) (os_launching Launched)
        (Some (selection_of [virtual_item])) = (E_FAIL, [])"
proof -
  let ?reg = "registry_of [(''ExePath'', ''C:/b.exe'')]"
  let ?two = "selection_of [virtual_item, path_item ''C:/a.txt'']"
  let ?one = "selection_of [virtual_item]"
  have none: "item_path ?two 0 = None"
    by (simp add: item_path_def selection_of_def virtual_item_def)
  have paths: "selected_paths ?two 2 = [''C:/a.txt'']"
    by (simp add: selected_paths_def upt_0_2 map_filter_simps item_path_def selection_of_def
        path_item_def virtual_item_def SUCCEEDED_def S_OK_def E_INVALIDARG_def)
  have hyp: "GetCount ?one = (S_OK, 1) \<and> SUCCEEDED S_OK \<and> (1::DWORD) \<noteq> 0
      \<and> (\<forall>i<unat (1::DWORD). item_path ?one (of_nat i) = None)"
    by (simp add: selection_of_def FAILED_codes item_path_def virtual_item_def)
  show ?thesis
    using Invoke_rejections [of ?reg "os_launching Launched" ?two 0 "[]" 2 S_OK]
      Invoke_rejections [of ?reg "os_launching Launched" ?one 0 "[]" 1 S_OK] none paths hyp
    by simp
qed

section \<open>Configuration is read at every call\<close>

text \<open>
  C2, as the specification states it, fails: two runs load the component under the same
  configuration, the display name is changed afterwards in the second, and \<open>GetTitle\<close>
  answers with the old name in the first run and with the new one in the second.
\<close>

theorem title_follows_later_change:
  "title_after_load (registry_of [(''DisplayName'', ''Old'')]) (os_launching Launched)
       (registry_of [(''DisplayName'', ''Old'')])
     = (S_OK, Some ''Old'')
   \<and> title_after_load (registry_of [(''DisplayName'', ''Old'')]) (os_launching Launched)
       (registry_of [(''DisplayName'', ''New'')])
     = (S_OK, Some ''New'')
   \<and> title_after_load (registry_of [(''DisplayName'', ''Old'')]) (os_launching Launched)
       (registry_of [(''DisplayName'', ''Old'')])
     \<noteq> title_after_load (registry_of [(''DisplayName'', ''Old'')]) (os_launching Launched)
       (registry_of [(''DisplayName'', ''New'')])"
  by (simp add: title_after_load_def GetTitle_def ReadRegString_def SHStrDupW_def registry_of_def
      os_launching_def ERROR_SUCCESS_def REG_SZ_def split: prod.splits)

text \<open>
  C2, amended. The display label, the executable path and the icon path are read from the
  persisted configuration at every \<open>GetTitle\<close>, \<open>GetIcon\<close> and \<open>Invoke\<close> call: two runs
  whose configuration agrees at the time of the call (the key opens alike and the three values
  are answered alike) get the same result from that call, whatever the configuration was when
  the component was loaded.
\<close>

theorem results_follow_configuration_at_call:
  assumes "RegOpenKeyExW r1 = RegOpenKeyExW r2"
    and "\<forall>name\<in>{''DisplayName'', ''ExePath'', ''IconPath''}.
           RegQueryValueExW r1 name 2048 = RegQueryValueExW r2 name 2048"
  shows "title_after_load l1 env r1 = title_after_load l2 env r2
       \<and> icon_after_load l1 env r1 = icon_after_load l2 env r2
       \<and> invoke_after_load l1 env r1 psiItemArray = invoke_after_load l2 env r2 psiItemArray"
proof -
  have d: "ReadRegString r1 ''DisplayName'' = ReadRegString r2 ''DisplayName''"
    and e: "ReadRegString r1 ''ExePath'' = ReadRegString r2 ''ExePath''"
    and i: "ReadRegString r1 ''IconPath'' = ReadRegString r2 ''IconPath''"
    using assms by (simp_all add: ReadRegString_def)
  have "GetTitle r1 env = GetTitle r2 env"
    by (simp only: GetTitle_def d)
  moreover have "GetIcon r1 env = GetIcon r2 env"
    by (simp only: GetIcon_def e i)
  moreover have "Invoke r1 env psiItemArray = Invoke r2 env psiItemArray"
    by (simp only: Invoke_def e)
  ultimately show ?thesis
    by (simp add: title_after_load_def icon_after_load_def invoke_after_load_def split: prod.splits)
qed

theorem results_follow_configuration_at_call_witness:
  "title_after_load (registry_of [(''DisplayName'', ''Old'')]) (os_launching Launched)
       (registry_of [(''DisplayName'', ''New'')])
     = (S_OK, Some ''New'')
   \<and> title_after_load (registry_of []) (os_launching Launched)
       (registry_of [(''DisplayName'', ''New''), (''CLSID'', ''{1}'')])
     = (S_OK, Some ''New'')"
proof -
  let ?r1 = "registry_of [(''DisplayName'', ''New'')]"
  let ?r2 = "registry_of [(''DisplayName'', ''New''), (''CLSID'', ''{1}'')]"
  have h1: "RegOpenKeyExW ?r1 = RegOpenKeyExW ?r2"
    by (simp add: registry_of_def)
  have h2: "\<forall>name\<in>{''DisplayName'', ''ExePath'', ''IconPath''}.
           RegQueryValueExW ?r1 name 2048 = RegQueryValueExW ?r2 name 2048"
    by (simp add: registry_of_def)
  have "title_after_load (registry_of [(''DisplayName'', ''Old'')]) (os_launching Launched) ?r1
      = (S_OK, Some ''New'')"
    by (simp add: title_after_load_def GetTitle_def ReadRegString_def SHStrDupW_def registry_of_def
        os_launching_def ERROR_SUCCESS_def REG_SZ_def split: prod.splits)
  then show ?thesis
    using results_follow_configuration_at_call [OF h1 h2, of "registry_of [(''DisplayName'', ''Old'')]"
        "os_launching Launched" "registry_of []" None]
    by simp
qed

section \<open>Reference counts\<close>

subsection \<open>Auxiliary facts\<close>

lemma live_from_0: "live_from 0 cs \<longleftrightarrow> cs = []"
  by (cases cs) simp_all

lemma peak_from_ge: "n \<le> peak_from n cs"
  by (cases cs) simp_all

lemma LONG_of_nat_eq_0: 
  assumes "k < 2 ^ 31" shows "(of_nat k :: LONG) = 0 \<longleftrightarrow> k = 0"
proof
  assume "(of_nat k :: LONG) = 0"
  then have "2 ^ 32 dvd k" by (simp add: word_of_nat_eq_0_iff)
  then have "k = 0 \<or> 2 ^ 32 \<le> k" by (auto dest: dvd_imp_le)
  moreover have "(2::nat) ^ 31 < 2 ^ 32" by simp
  ultimately show "k = 0" using assms by linarith
qed simp

lemma LONG_sint_of_nat: 
  assumes "k < 2 ^ 31" shows "sint (of_nat k :: LONG) = int k"
proof -
  have "int k < 2 ^ 31" using assms by (metis of_nat_less_numeral_power_cancel_iff)
  then have "signed_take_bit 31 (int k) = int k"
    by (intro signed_take_bit_int_eq_self) simp_all
  then show ?thesis by (simp add: signed_of_nat)
qed

lemma LONG_pred: "0 < n \<Longrightarrow> (of_nat n :: LONG) - 1 = of_nat (n - 1)"
  by (cases n) simp_all


lemma command_run_from:
  "0 < n \<Longrightarrow> m_refCount this = of_nat n \<Longrightarrow> peak_from n cs < 2 ^ 31 \<Longrightarrow>
   command_run cs (Some this) =
     (if live_from n cs
      then Inr (if held_after n cs = 0 then None else Some \<lparr>m_refCount = of_nat (held_after n cs)\<rparr>)
      else Inl UseAfterFree)"
proof (induction cs arbitrary: n this)
  case Nil
  then show ?case by simp
next
  case (Cons c cs)
  have "n \<le> peak_from n (c # cs)" by (rule peak_from_ge)
  with Cons.prems(3) have n: "n < 2 ^ 31" by linarith
  have "peak_from (held_after n [c]) cs \<le> peak_from n (c # cs)" by simp
  with Cons.prems(3) have pk: "peak_from (held_after n [c]) cs < 2 ^ 31" by linarith
  show ?case
  proof (cases c)
    case OpAddRef
    have call: "command_call c this = Some \<lparr>m_refCount = of_nat (Suc n)\<rparr>"
      unfolding OpAddRef by (simp add: AddRef_def Let_def Cons.prems(2) add.commute)
    have step: "command_run (c # cs) (Some this) = command_run cs (Some \<lparr>m_refCount = of_nat (Suc n)\<rparr>)"
      by (simp only: command_run.simps call)
    have live: "live_from n (c # cs) = live_from (Suc n) cs"
      and held: "held_after n (c # cs) = held_after (Suc n) cs"
      using Cons.prems(1) unfolding OpAddRef by simp_all
    show ?thesis
      unfolding step live held
    proof (rule Cons.IH)
      show "peak_from (Suc n) cs < 2 ^ 31" using pk unfolding OpAddRef by simp
    qed simp_all
  next
    case OpRelease
    have ref: "m_refCount this - 1 = of_nat (n - 1)"
      using Cons.prems(1) by (simp only: Cons.prems(2) LONG_pred)
    have "n - 1 < 2 ^ 31" using n by linarith
    then have zero: "(of_nat (n - 1) :: LONG) = 0 \<longleftrightarrow> n - 1 = 0"
      by (rule LONG_of_nat_eq_0)
    have live: "live_from n (c # cs) = live_from (n - 1) cs"
      and held: "held_after n (c # cs) = held_after (n - 1) cs"
      using Cons.prems(1) unfolding OpRelease by simp_all
    show ?thesis
    proof (cases "n - 1 = 0")
      case True
      then have call: "command_call c this = None"
        unfolding OpRelease by (simp add: Release_def Let_def ref)
      have step: "command_run (c # cs) (Some this) = command_run cs None"
        by (simp only: command_run.simps call)
      have "command_run cs None = (if cs = [] then Inr None else Inl UseAfterFree)"
        by (cases cs) simp_all
      moreover have "cs = [] \<Longrightarrow> held_after 0 cs = 0" by simp
      ultimately show ?thesis
        unfolding step live held True live_from_0 by simp
    next
      case False
      then have call: "command_call c this = Some \<lparr>m_refCount = of_nat (n - 1)\<rparr>"
        unfolding OpRelease using zero by (simp add: Release_def Let_def ref)
      have step: "command_run (c # cs) (Some this) = command_run cs (Some \<lparr>m_refCount = of_nat (n - 1)\<rparr>)"
        by (simp only: command_run.simps call)
      show ?thesis
        unfolding step live held
      proof (rule Cons.IH)
        show "peak_from (n - 1) cs < 2 ^ 31" using pk unfolding OpRelease by simp
        show "0 < n - 1" using False by simp
      qed simp
    qed
  qed
qed


lemma factory_run_from:
  "0 < n \<Longrightarrow> cf_m_refCount this = of_nat n \<Longrightarrow> peak_from n cs < 2 ^ 31 \<Longrightarrow>
   factory_run cs (Some this, st) =
     (if live_from n cs
      then Inr (if held_after n cs = 0 then (None, st\<lparr>g_dllRefCount := g_dllRefCount st - 1\<rparr>)
                else (Some \<lparr>cf_m_refCount = of_nat (held_after n cs)\<rparr>, st))
      else Inl UseAfterFree)"
proof (induction cs arbitrary: n this)
  case Nil
  then show ?case by simp
next
  case (Cons c cs)
  have "n \<le> peak_from n (c # cs)" by (rule peak_from_ge)
  with Cons.prems(3) have n: "n < 2 ^ 31" by linarith
  have "peak_from (held_after n [c]) cs \<le> peak_from n (c # cs)" by simp
  with Cons.prems(3) have pk: "peak_from (held_after n [c]) cs < 2 ^ 31" by linarith
  show ?case
  proof (cases c)
    case OpAddRef
    have call: "factory_call c (this, st) = (Some \<lparr>cf_m_refCount = of_nat (Suc n)\<rparr>, st)"
      unfolding OpAddRef by (simp add: ClassFactory_AddRef_def Let_def Cons.prems(2) add.commute)
    have step: "factory_run (c # cs) (Some this, st)
        = factory_run cs (Some \<lparr>cf_m_refCount = of_nat (Suc n)\<rparr>, st)"
      by (simp only: factory_run.simps call)
    have live: "live_from n (c # cs) = live_from (Suc n) cs"
      and held: "held_after n (c # cs) = held_after (Suc n) cs"
      using Cons.prems(1) unfolding OpAddRef by simp_all
    show ?thesis
      unfolding step live held
    proof (rule Cons.IH)
      show "peak_from (Suc n) cs < 2 ^ 31" using pk unfolding OpAddRef by simp
    qed simp_all
  next
    case OpRelease
    have ref: "cf_m_refCount this - 1 = of_nat (n - 1)"
      using Cons.prems(1) by (simp only: Cons.prems(2) LONG_pred)
    have "n - 1 < 2 ^ 31" using n by linarith
    then have zero: "(of_nat (n - 1) :: LONG) = 0 \<longleftrightarrow> n - 1 = 0"
      by (rule LONG_of_nat_eq_0)
    have live: "live_from n (c # cs) = live_from (n - 1) cs"
      and held: "held_after n (c # cs) = held_after (n - 1) cs"
      using Cons.prems(1) unfolding OpRelease by simp_all
    show ?thesis
    proof (cases "n - 1 = 0")
      case True
      then have call: "factory_call c (this, st) = (None, st\<lparr>g_dllRefCount := g_dllRefCount st - 1\<rparr>)"
        unfolding OpRelease by (simp add: ClassFactory_Release_def Let_def ref)
      have step: "factory_run (c # cs) (Some this, st)
          = factory_run cs (None, st\<lparr>g_dllRefCount := g_dllRefCount st - 1\<rparr>)"
        by (simp only: factory_run.simps call)
      have "factory_run cs (None, st') = (if cs = [] then Inr (None, st') else Inl UseAfterFree)" for st'
        by (cases cs) simp_all
      moreover have "cs = [] \<Longrightarrow> held_after 0 cs = 0" by simp
      ultimately show ?thesis
        unfolding step live held True live_from_0 by simp
    next
      case False
      then have call: "factory_call c (this, st) = (Some \<lparr>cf_m_refCount = of_nat (n - 1)\<rparr>, st)"
        unfolding OpRelease using zero by (simp add: ClassFactory_Release_def Let_def ref)
      have step: "factory_run (c # cs) (Some this, st)
          = factory_run cs (Some \<lparr>cf_m_refCount = of_nat (n - 1)\<rparr>, st)"
        by (simp only: factory_run.simps call)
      show ?thesis
        unfolding step live held
      proof (rule Cons.IH)
        show "peak_from (n - 1) cs < 2 ^ 31" using pk unfolding OpRelease by simp
        show "0 < n - 1" using False by simp
      qed simp
    qed
  qed
qed

lemma symmetric_from_take: "symmetric_from n cs \<Longrightarrow> symmetric_from n (take k cs)"
proof (induction cs arbitrary: n k)
  case Nil
  then show ?case by simp
next
  case (Cons c cs)
  then show ?case by (cases k; cases c) simp_all
qed

lemma peak_from_take: "peak_from n (take k cs) \<le> peak_from n cs"
proof (induction cs arbitrary: n k)
  case Nil
  then show ?case by simp
next
  case (Cons c cs)
  show ?case
  proof (cases k)
    case 0
    then show ?thesis by (simp add: peak_from_ge)
  next
    case (Suc j)
    have "peak_from (held_after n [c]) (take j cs) \<le> peak_from (held_after n [c]) cs"
      by (rule Cons.IH)
    then show ?thesis unfolding Suc by simp
  qed
qed

lemma held_after_count:
  "symmetric_from n cs \<Longrightarrow>
   int (held_after n cs) = int n + int (count_list cs OpAddRef) - int (count_list cs OpRelease)"
proof (induction cs arbitrary: n)
  case Nil
  then show ?case by simp
next
  case (Cons c cs)
  then show ?case by (cases c) (simp_all add: of_nat_diff)
qed

lemma held_after_le_peak: "held_after n cs \<le> peak_from n cs"
proof (induction cs arbitrary: n)
  case Nil
  then show ?case by simp
next
  case (Cons c cs)
  have "held_after n (c # cs) = held_after (held_after n [c]) cs" by (cases c) simp_all
  also have "\<dots> \<le> peak_from (held_after n [c]) cs" by (rule Cons.IH)
  finally show ?case by simp
qed

lemma symmetric_from_replicate: "symmetric_from n (replicate k OpAddRef)"
  by (induction k arbitrary: n) simp_all

lemma command_run_replicate:
  "command_run (replicate k OpAddRef) (Some this) = Inr (Some \<lparr>m_refCount = m_refCount this + of_nat k\<rparr>)"
proof (induction k arbitrary: this)
  case 0
  then show ?case by simp
next
  case (Suc k)
  have "command_run (replicate (Suc k) OpAddRef) (Some this)
      = command_run (replicate k OpAddRef) (Some \<lparr>m_refCount = m_refCount this + 1\<rparr>)"
    by (cases this) (simp add: AddRef_def Let_def)
  also have "\<dots> = Inr (Some \<lparr>m_refCount = m_refCount this + 1 + of_nat k\<rparr>)"
    by (simp add: Suc.IH)
  finally show ?case by (simp add: add.assoc)
qed

subsection \<open>Symmetric call sequences\<close>

text \<open>
  C7, as the specification states it, fails: the counter is a 32-bit \<open>LONG\<close>, and after
  2147483647 \<open>AddRef\<close> calls on a new command object (a symmetric sequence: it releases
  nothing) the count has wrapped around to the negative value -2147483648.
\<close>

theorem refcount_wraps_negative:
  "symmetric_from 1 (replicate 2147483647 OpAddRef)
   \<and> command_run (replicate 2147483647 OpAddRef) (Some BascankaCommand_new)
       = Inr (Some \<lparr>m_refCount = 0x80000000\<rparr>)
   \<and> sint (0x80000000 :: LONG) < 0"
  using command_run_replicate [of 2147483647 BascankaCommand_new]
  by (simp add: symmetric_from_replicate BascankaCommand_new_def)

text \<open>
  C7, amended. Take a sequence of calls on a new command object or a new factory in which
  each \<open>Release\<close> is matched by an earlier \<open>AddRef\<close> or by the initial reference, and
  in which fewer than 2147483648 references are ever held at once. After any number \<open>k\<close> of
  its calls the count \<open>h\<close> is 1 plus the acquisitions minus the releases, and is stored as a
  non-negative \<open>LONG\<close>; while every call was made with a reference held, the object is
  deleted exactly when \<open>h\<close> is 0 and otherwise alive with count \<open>h\<close> (the factory gives back
  its unit of \<open>g_dllRefCount\<close> when it is deleted); a call made after the count has reached 0
  goes to a deleted object.
\<close>

theorem refcount_symmetric_bounded:
  assumes "symmetric_from 1 cs" and "peak_from 1 cs < 2 ^ 31"
  shows "let p = take k cs; h = held_after 1 p in
           int h = 1 + int (count_list p OpAddRef) - int (count_list p OpRelease)
         \<and> sint (of_nat h :: LONG) = int h
         \<and> command_run p (Some BascankaCommand_new) =
             (if live_from 1 p
              then Inr (if h = 0 then None else Some \<lparr>m_refCount = of_nat h\<rparr>)
              else Inl UseAfterFree)
         \<and> (case ClassFactory_new st of (this, st') \<Rightarrow> factory_run p (Some this, st')) =
             (if live_from 1 p
              then Inr (if h = 0 then (None, st) else (Some \<lparr>cf_m_refCount = of_nat h\<rparr>, st\<lparr>g_dllRefCount := g_dllRefCount st + 1\<rparr>))
              else Inl UseAfterFree)"
proof -
  define p where "p = take k cs"
  have sym: "symmetric_from 1 p"
    unfolding p_def using assms(1) by (rule symmetric_from_take)
  have "peak_from 1 p \<le> peak_from 1 cs"
    unfolding p_def by (rule peak_from_take)
  with assms(2) have pk: "peak_from 1 p < 2 ^ 31" by linarith
  have "held_after 1 p \<le> peak_from 1 p" by (rule held_after_le_peak)
  with pk have h: "held_after 1 p < 2 ^ 31" by linarith
  have count: "int (held_after 1 p) = 1 + int (count_list p OpAddRef) - int (count_list p OpRelease)"
    using held_after_count [OF sym] by simp
  have signed: "sint (of_nat (held_after 1 p) :: LONG) = int (held_after 1 p)"
    using h by (rule LONG_sint_of_nat)
  have cmd: "command_run p (Some BascankaCommand_new) =
      (if live_from 1 p
       then Inr (if held_after 1 p = 0 then None else Some \<lparr>m_refCount = of_nat (held_after 1 p)\<rparr>)
       else Inl UseAfterFree)"
    using pk by (intro command_run_from) (simp_all add: BascankaCommand_new_def)
  have "factory_run p (Some \<lparr>cf_m_refCount = 1\<rparr>, st\<lparr>g_dllRefCount := g_dllRefCount st + 1\<rparr>) =
      (if live_from 1 p
       then Inr (if held_after 1 p = 0
                 then (None, st\<lparr>g_dllRefCount := g_dllRefCount st + 1\<rparr>\<lparr>g_dllRefCount := g_dllRefCount (st\<lparr>g_dllRefCount := g_dllRefCount st + 1\<rparr>) - 1\<rparr>)
                 else (Some \<lparr>cf_m_refCount = of_nat (held_after 1 p)\<rparr>, st\<lparr>g_dllRefCount := g_dllRefCount st + 1\<rparr>))
       else Inl UseAfterFree)"
    using pk by (intro factory_run_from) simp_all
  then have fac: "(case ClassFactory_new st of (this, st') \<Rightarrow> factory_run p (Some this, st')) =
      (if live_from 1 p
       then Inr (if held_after 1 p = 0 then (None, st)
                 else (Some \<lparr>cf_m_refCount = of_nat (held_after 1 p)\<rparr>, st\<lparr>g_dllRefCount := g_dllRefCount st + 1\<rparr>))
       else Inl UseAfterFree)"
    by (simp add: ClassFactory_new_def)
  show ?thesis
    unfolding Let_def p_def [symmetric] using count signed cmd fac by simp
qed

theorem refcount_symmetric_bounded_witness:
  "symmetric_from 1 [OpAddRef, OpRelease, OpRelease]
   \<and> peak_from 1 [OpAddRef, OpRelease, OpRelease] < 2 ^ 31
   \<and> command_run [OpAddRef, OpRelease] (Some BascankaCommand_new) = Inr (Some \<lparr>m_refCount = 1\<rparr>)
   \<and> command_run [OpAddRef, OpRelease, OpRelease] (Some BascankaCommand_new) = Inr None
   \<and> (case ClassFactory_new initial_state of (this, st') \<Rightarrow>
         factory_run [OpAddRef, OpRelease, OpRelease] (Some this, st')) = Inr (None, initial_state)"
proof -
  have h1: "symmetric_from 1 [OpAddRef, OpRelease, OpRelease]" by simp
  have h2: "peak_from 1 [OpAddRef, OpRelease, OpRelease] < 2 ^ 31" by simp
  show ?thesis
    using h1 h2 refcount_symmetric_bounded [OF h1 h2, of 2 initial_state]
      refcount_symmetric_bounded [OF h1 h2, of 3 initial_state]
    by (simp add: Let_def)
qed

section \<open>Class objects\<close>

text \<open>
  C9. \<open>DllGetClassObject\<close>, given a non-null output pointer, first loads the component
  identifier again when none is loaded (the global is the zero identifier). For a class
  identifier different from the identifier then loaded it returns
  \<open>CLASS_E_CLASSNOTAVAILABLE\<close>, leaves the output pointer null and constructs no factory.
  \<open>CreateInstance\<close> with a non-null outer pointer returns \<open>CLASS_E_NOAGGREGATION\<close> and
  constructs no command object.
\<close>

theorem class_object_refusals:
  "(let st' = (if g_CLSID_BascankaCommand st = 0 then snd (ReadCLSIDFromRegistry reg env st) else st)
    in rclsid \<noteq> g_CLSID_BascankaCommand st' \<longrightarrow>
         DllGetClassObject reg env st rclsid riid True = (CLASS_E_CLASSNOTAVAILABLE, Null, [], st'))
   \<and> (g_CLSID_BascankaCommand st \<noteq> 0 \<and> rclsid \<noteq> g_CLSID_BascankaCommand st \<longrightarrow>
         DllGetClassObject reg env st rclsid riid True = (CLASS_E_CLASSNOTAVAILABLE, Null, [], st))
   \<and> CreateInstance env (Some pUnkOuter) riid' ppv = (CLASS_E_NOAGGREGATION, NotWritten, [])"
  by (simp add: DllGetClassObject_def CreateInstance_def Let_def)

theorem class_object_refusals_witness:
  "DllGetClassObject (registry_of [(''CLSID'', ''{1}'')]) (os_launching Launched) initial_state 2
       IID_IClassFactory True
     = (CLASS_E_CLASSNOTAVAILABLE, Null, [], initial_state\<lparr>g_CLSID_BascankaCommand := 1\<rparr>)
   \<and> DllGetClassObject (registry_of []) (os_launching Launched)
       (initial_state\<lparr>g_CLSID_BascankaCommand := 1\<rparr>) 2 IID_IClassFactory True
     = (CLASS_E_CLASSNOTAVAILABLE, Null, [], initial_state\<lparr>g_CLSID_BascankaCommand := 1\<rparr>)
   \<and> CreateInstance (os_launching Launched) (Some ()) IID_IExplorerCommand True
     = (CLASS_E_NOAGGREGATION, NotWritten, [])"
  using class_object_refusals [where st = initial_state and reg = "registry_of [(''CLSID'', ''{1}'')]"
      and env = "os_launching Launched" and rclsid = 2 and riid = IID_IClassFactory
      and pUnkOuter = "()" and riid' = IID_IExplorerCommand and ppv = True]
    class_object_refusals [where st = "initial_state\<lparr>g_CLSID_BascankaCommand := 1\<rparr>"
      and reg = "registry_of []" and env = "os_launching Launched" and rclsid = 2
      and riid = IID_IClassFactory and pUnkOuter = "()" and riid' = IID_IExplorerCommand and ppv = True]
  by (simp add: ReadCLSIDFromRegistry_def registry_of_def os_launching_def initial_state_def Let_def
      ERROR_SUCCESS_def REG_SZ_def SUCCEEDED_def S_OK_def)

end
